theory Spec2Isabelle
  imports Complex_Main
begin

section \<open>Multi-endpoint RPC client: retry and fail-over\<close>

text \<open>
  The module keeps two module-level variables, \<open>currentConnection\<close> and
  \<open>currentRpcIndex\<close>, and reads \<open>appConfig.rpcEndpoints\<close> and
  \<open>appConfig.rpcRetryAttempts\<close>. A \<open>Connection\<close> object is identified by the
  endpoint it was constructed for; \<open>None\<close> stands for JavaScript's \<open>undefined\<close>, which
  is what an array read outside the array yields.
\<close>

datatype connection = Connection (rpcEndpoint: "string option")

record appConfig =
  rpcEndpoints :: "string list"
  rpcRetryAttempts :: int
  pumpFunWebsocketUrl :: string

record rpc_module =
  currentConnection :: "connection option"
  currentRpcIndex :: nat

text \<open>What \<open>executeRpcCall\<close> can throw: the error the action threw (rethrown as it is),
  the error of \<open>getSolanaConnection\<close> on an empty pool, and the fallback error of the last
  line of \<open>executeRpcCall\<close>.\<close>

datatype 'e rpc_error =
    ActionError 'e
  | NoRpcEndpointsConfigured
  | ExhaustedFailover

text \<open>\<open>xs[i]\<close> in JavaScript.\<close>

definition js_index :: "'a list \<Rightarrow> nat \<Rightarrow> 'a option" where
  "js_index xs i = (if i < length xs then Some (xs ! i) else None)"

definition createConnection :: "string option \<Rightarrow> connection" where
  "createConnection rpcUrl = Connection rpcUrl"

definition getSolanaConnection ::
  "appConfig \<Rightarrow> rpc_module \<Rightarrow> 'e rpc_error + (connection \<times> rpc_module)" where
  "getSolanaConnection cfg m =
     (case currentConnection m of
        Some c \<Rightarrow> Inr (c, m)
      | None \<Rightarrow>
          if length (rpcEndpoints cfg) = 0 then Inl NoRpcEndpointsConfigured
          else
            let c = createConnection (js_index (rpcEndpoints cfg) (currentRpcIndex m))
            in Inr (c, m\<lparr>currentConnection := Some c\<rparr>))"

text \<open>\<open>switchToNextRpc\<close> is called by \<open>executeRpcCall\<close> only when
  \<open>cycle < length - 1\<close>, so with at least two endpoints. (On an empty pool JavaScript
  computes \<open>NaN\<close> for the index; HOL's \<open>mod 0\<close> leaves \<open>i + 1\<close>, and the endpoint read
  is \<open>undefined\<close> in both.)\<close>

definition switchToNextRpc :: "appConfig \<Rightarrow> rpc_module \<Rightarrow> connection \<times> rpc_module" where
  "switchToNextRpc cfg m =
     (let i = (currentRpcIndex m + 1) mod length (rpcEndpoints cfg);
          nextRpcUrl = js_index (rpcEndpoints cfg) i;
          c = createConnection nextRpcUrl
      in (c, m\<lparr>currentRpcIndex := i, currentConnection := Some c\<rparr>))"

text \<open>
  The action is a remote call: what it yields may change from one invocation to the
  next. \<open>action k conn\<close> is the outcome of the invocation made when \<open>k\<close> invocations
  came before it in this call of \<open>executeRpcCall\<close> (\<open>k\<close> is
  \<open>totalAttemptsAcrossRpcs\<close> before its increment): \<open>Inr v\<close> when the promise
  resolves with \<open>v\<close>, \<open>Inl e\<close> when it rejects with \<open>e\<close>.

  The inner \<open>for\<close> loop over \<open>attempt\<close> leaves in one of four ways.
\<close>

datatype ('e, 'a) attempt_exit =
    Returned 'a
  | Thrown 'e
  | Break
  | LoopDone

function attemptLoop ::
  "appConfig \<Rightarrow> (nat \<Rightarrow> connection \<Rightarrow> 'e + 'a) \<Rightarrow> ('e \<Rightarrow> bool) \<Rightarrow> connection \<Rightarrow>
     nat \<Rightarrow> int \<Rightarrow> nat \<Rightarrow> ('e, 'a) attempt_exit \<times> nat" where
  "attemptLoop cfg action isFailoverErrorCheck conn cycle attempt made =
     (if attempt < rpcRetryAttempts cfg then
        (case action made conn of
           Inr v \<Rightarrow> (Returned v, made + 1)
         | Inl err \<Rightarrow>
             if attempt < rpcRetryAttempts cfg - 1 then
               (if isFailoverErrorCheck err
                then attemptLoop cfg action isFailoverErrorCheck conn cycle (attempt + 1) (made + 1)
                else (Thrown err, made + 1))
             else if isFailoverErrorCheck err
                     \<and> int cycle < int (length (rpcEndpoints cfg)) - 1
               then (Break, made + 1)
             else (Thrown err, made + 1))
      else (LoopDone, made))"
  by pat_completeness auto
termination
  by (relation "measure (\<lambda>(cfg, action, chk, conn, cycle, attempt, made).
        nat (rpcRetryAttempts cfg - attempt))") auto

declare attemptLoop.simps [simp del]

record ('e, 'a) rpc_result =
  outcome :: "'e rpc_error + 'a"
  module :: rpc_module
  totalAttemptsAcrossRpcs :: nat

function cycleLoop ::
  "appConfig \<Rightarrow> (nat \<Rightarrow> connection \<Rightarrow> 'e + 'a) \<Rightarrow> ('e \<Rightarrow> bool) \<Rightarrow> rpc_module \<Rightarrow>
     nat \<Rightarrow> nat \<Rightarrow> ('e, 'a) rpc_result" where
  "cycleLoop cfg action isFailoverErrorCheck m cycle made =
     (if cycle < length (rpcEndpoints cfg) then
        (case getSolanaConnection cfg m of
           Inl e \<Rightarrow> \<lparr>outcome = Inl e, module = m, totalAttemptsAcrossRpcs = made\<rparr>
         | Inr (conn, m1) \<Rightarrow>
             (case attemptLoop cfg action isFailoverErrorCheck conn cycle 0 made of
                (Returned v, t) \<Rightarrow>
                  \<lparr>outcome = Inr v, module = m1, totalAttemptsAcrossRpcs = t\<rparr>
              | (Thrown err, t) \<Rightarrow>
                  \<lparr>outcome = Inl (ActionError err), module = m1, totalAttemptsAcrossRpcs = t\<rparr>
              | (_, t) \<Rightarrow>
                  if int cycle < int (length (rpcEndpoints cfg)) - 1
                  then cycleLoop cfg action isFailoverErrorCheck
                         (snd (switchToNextRpc cfg m1)) (cycle + 1) t
                  else cycleLoop cfg action isFailoverErrorCheck m1 (cycle + 1) t))
      else \<lparr>outcome = Inl ExhaustedFailover, module = m, totalAttemptsAcrossRpcs = made\<rparr>)"
  by pat_completeness auto
termination
  by (relation "measure (\<lambda>(cfg, action, chk, m, cycle, made).
        length (rpcEndpoints cfg) - cycle)") auto

declare cycleLoop.simps [simp del]

definition executeRpcCall ::
  "appConfig \<Rightarrow> (nat \<Rightarrow> connection \<Rightarrow> 'e + 'a) \<Rightarrow> ('e \<Rightarrow> bool) \<Rightarrow> rpc_module \<Rightarrow>
     ('e, 'a) rpc_result" where
  "executeRpcCall cfg action isFailoverErrorCheck m =
     cycleLoop cfg action isFailoverErrorCheck m 0 0"

text \<open>Concrete inputs: the module as it is when first loaded, and a configuration
  with the given pool and attempt limit.\<close>

definition freshModule :: rpc_module where
  "freshModule = \<lparr>currentConnection = None, currentRpcIndex = 0\<rparr>"

definition poolOf :: "string list \<Rightarrow> int \<Rightarrow> appConfig" where
  "poolOf endpoints attempts =
     \<lparr>rpcEndpoints = endpoints, rpcRetryAttempts = attempts, pumpFunWebsocketUrl = ''''\<rparr>"


section \<open>Streaming subscription client: \<open>PumpFunListener\<close>\<close>

subsection \<open>JavaScript strings\<close>

text \<open>
  A string is the list of its code units; the model covers code units below 256.
  Among these, the white space and line terminators of \<open>String.prototype.trim\<close> and of
  the regular expression class \<open>\s\<close> are TAB, LF, VT, FF, CR, space and NBSP.
\<close>

definition CRLF :: string where
  "CRLF = [CHR 0x0D, CHR 0x0A]"

definition isWhiteSpace :: "char \<Rightarrow> bool" where
  "isWhiteSpace c =
     (c = CHR 0x09 \<or> c = CHR 0x0A \<or> c = CHR 0x0B \<or> c = CHR 0x0C \<or> c = CHR 0x0D \<or>
      c = CHR 0x20 \<or> c = CHR 0xA0)"

definition trim :: "string \<Rightarrow> string" where
  "trim s = rev (dropWhile isWhiteSpace (rev (dropWhile isWhiteSpace s)))"

definition startsWith :: "string \<Rightarrow> string \<Rightarrow> bool" where
  "startsWith s p = (take (length p) s = p)"

text \<open>\<open>s.split(/\s+/)\<close>: the fields between the maximal runs of white space. A string
  that starts (ends) with white space has an empty first (last) field, and the empty
  string has the one field \<open>""\<close>.\<close>

function split_ws :: "string \<Rightarrow> string list" where
  "split_ws s =
     (let field = takeWhile (\<lambda>c. \<not> isWhiteSpace c) s;
          rest = dropWhile (\<lambda>c. \<not> isWhiteSpace c) s
      in if rest = [] then [field]
         else field # split_ws (dropWhile isWhiteSpace rest))"
  by pat_completeness auto
termination
proof (relation "measure length")
  show "wf (measure length)" by simp
next
  fix s :: string and field rest
  assume rest: "rest = dropWhile (\<lambda>c. \<not> isWhiteSpace c) s" and ne: "rest \<noteq> []"
  have "isWhiteSpace (hd rest)"
    using hd_dropWhile [of "\<lambda>c. \<not> isWhiteSpace c" s] ne unfolding rest by simp
  then have "dropWhile isWhiteSpace rest = dropWhile isWhiteSpace (tl rest)"
    using ne by (cases rest) auto
  also have "length \<dots> \<le> length (tl rest)"
    by (rule length_dropWhile_le)
  also have "\<dots> < length rest" using ne by (cases rest) auto
  also have "\<dots> \<le> length s" unfolding rest by (rule length_dropWhile_le)
  finally show "(dropWhile isWhiteSpace rest, s) \<in> measure length" by simp
qed

declare split_ws.simps [simp del]

text \<open>\<open>s.indexOf(p)\<close>, with \<open>-1\<close> when \<open>p\<close> does not occur, and \<open>s.substring(n)\<close>
  (a negative \<open>n\<close> counts as 0).\<close>

fun indexOf :: "string \<Rightarrow> string \<Rightarrow> int" where
  "indexOf [] p = (if p = [] then 0 else - 1)"
| "indexOf (c # t) p =
     (if startsWith (c # t) p then 0
      else (let i = indexOf t p in if i = - 1 then - 1 else i + 1))"

definition substring :: "string \<Rightarrow> int \<Rightarrow> string" where
  "substring s n = drop (nat n) s"

subsection \<open>JSON values\<close>

text \<open>
  What \<open>JSON.parse\<close> returns. An object is the list of its own properties, each name
  once. A value of type \<open>json option\<close> is a JavaScript value that may be
  \<open>undefined\<close> (\<open>None\<close>). \<open>JSON.parse\<close> itself belongs to the runtime, not to the
  repository: it is a parameter \<open>parse\<close> of the model, \<open>None\<close> when it throws a
  \<open>SyntaxError\<close>.
\<close>

datatype json =
    JNull
  | JBool bool
  | JNumber real
  | JString string
  | JArray "json list"
  | JObject "(string \<times> json) list"

datatype js_exception = SyntaxError | TypeError | CallbackThrew nat

text \<open>JavaScript's truthiness, and \<open>a || b\<close>.\<close>

fun truthy :: "json option \<Rightarrow> bool" where
  "truthy None = False"
| "truthy (Some JNull) = False"
| "truthy (Some (JBool b)) = b"
| "truthy (Some (JNumber x)) = (x \<noteq> 0)"
| "truthy (Some (JString s)) = (s \<noteq> [])"
| "truthy (Some (JArray xs)) = True"
| "truthy (Some (JObject kvs)) = True"

definition js_or :: "json option \<Rightarrow> json option \<Rightarrow> json option" where
  "js_or a b = (if truthy a then a else b)"

text \<open>\<open>v.name\<close> for a property name that no prototype defines (as the four alias
  names): the own property of an object, \<open>undefined\<close> on any other value.\<close>

fun getProperty :: "json \<Rightarrow> string \<Rightarrow> json option" where
  "getProperty (JObject kvs) name = map_of kvs name"
| "getProperty v name = None"

subsection \<open>The listener's state\<close>

datatype NatsState =
    DISCONNECTED
  | CONNECTING
  | CONNECTED_WAITING_FOR_INFO_OR_PING
  | CONNECTED_AWAITING_PONG
  | SUBSCRIBING
  | OPERATIONAL

datatype readyState = WS_CONNECTING | WS_OPEN | WS_CLOSING | WS_CLOSED

text \<open>
  A \<open>WebSocket\<close> object of the \<open>ws\<close> library, as far as the listener uses it: its
  \<open>readyState\<close>, whether the \<open>'close'\<close> and \<open>'error'\<close> listeners that
  \<open>connect\<close> registers are still attached (\<open>stop\<close> removes them; the \<open>'open'\<close> and
  \<open>'message'\<close> listeners are never removed), how often \<open>close()\<close> was called on it,
  and what was sent through it.
\<close>

record websocket =
  readyState :: readyState
  closeListener :: bool
  errorListener :: bool
  closeCalls :: nat
  sent :: "string list"

datatype level = Debug | Info | Warn | Error

text \<open>The messages the listener logs, one constructor for each call of the logger in
  the source; \<open>messageText\<close> gives the constant text the message starts with.\<close>

datatype log_message =
    WebSocketNotOpen
  | SendingNatsCommand
  | SendingClientPing
  | SubscribingToTopics
  | SubscribedTo
  | CannotConnectUrlNotConfigured
  | ConnectingTo
  | ConnectionEstablished
  | WebSocketError
  | WebSocketDisconnected
  | AttemptingToReconnect
  | PayloadWasString
  | NewGraduatedToken
  | MissingTokenAddress
  | ErrorParsingPayload
  | MalformedNatsMsg
  | MissingPayloadSeparator
  | NatsMsgReceived
  | ReceivedRawMessage
  | ReceivedInfo
  | ReceivedPing
  | ReceivedOk
  | SubscriptionsConfirmed
  | ReceivedPong
  | ReceivedNatsError
  | ReceivedUnhandledMessage
  | UrlNotSetCannotStart
  | AlreadyStarted
  | Stopping
  | Stopped

primrec messageText :: "log_message \<Rightarrow> string" where
  "messageText WebSocketNotOpen =
     ''PumpFunListener: WebSocket not open, cannot send NATS command.''"
| "messageText SendingNatsCommand =
     ''PumpFunListener: Sending NATS command: ''"
| "messageText SendingClientPing =
     ''PumpFunListener: Sending client PING for keep-alive.''"
| "messageText SubscribingToTopics =
     ''PumpFunListener: Subscribing to NATS topics as per user specification...''"
| "messageText SubscribedTo =
     ''Subscribed to: coinImageUpdated.> (SID: ''"
| "messageText CannotConnectUrlNotConfigured =
     ''PumpFunListener: Cannot connect, PUMPFUN_WEBSOCKET_URL is not configured.''"
| "messageText ConnectingTo =
     ''PumpFunListener: Connecting to ''"
| "messageText ConnectionEstablished =
     ''PumpFunListener: WebSocket connection established.''"
| "messageText WebSocketError =
     ''PumpFunListener: WebSocket error:''"
| "messageText WebSocketDisconnected =
     ''PumpFunListener: WebSocket disconnected. Code: ''"
| "messageText AttemptingToReconnect =
     ''Attempting to reconnect in ''"
| "messageText PayloadWasString =
     ''PumpFunListener: Payload was a string, attempting second JSON.parse().''"
| "messageText NewGraduatedToken =
     ''PumpFunListener: New 'advancedCoinGraduated' token: ''"
| "messageText MissingTokenAddress =
     ''PumpFunListener: 'advancedCoinGraduated' message missing token address. Data:''"
| "messageText ErrorParsingPayload =
     ''PumpFunListener: Error parsing JSON payload for advancedCoinGraduated:''"
| "messageText MalformedNatsMsg =
     ''PumpFunListener: Malformed NATS MSG: ''"
| "messageText MissingPayloadSeparator =
     ''PumpFunListener: NATS MSG missing payload separator: ''"
| "messageText NatsMsgReceived =
     ''PumpFunListener: NATS MSG | Subject: ''"
| "messageText ReceivedRawMessage =
     ''PumpFunListener: Received raw NATS message: ''"
| "messageText ReceivedInfo =
     ''PumpFunListener: Received NATS INFO: ''"
| "messageText ReceivedPing =
     ''PumpFunListener: Received PING from server.''"
| "messageText ReceivedOk =
     ''PumpFunListener: Received +OK (e.g., after SUB or PONG).''"
| "messageText SubscriptionsConfirmed =
     ''PumpFunListener: Subscriptions confirmed. Operational.''"
| "messageText ReceivedPong =
     ''PumpFunListener: Received PONG from server.''"
| "messageText ReceivedNatsError =
     ''PumpFunListener: Received NATS Error: ''"
| "messageText ReceivedUnhandledMessage =
     ''PumpFunListener: Received unhandled NATS message: ''"
| "messageText UrlNotSetCannotStart =
     ''PumpFunListener: PUMPFUN_WEBSOCKET_URL is not set. Cannot start listener.''"
| "messageText AlreadyStarted =
     ''PumpFunListener: Already started or in a connecting state (''"
| "messageText Stopping =
     ''PumpFunListener: Stopping WebSocket connection...''"
| "messageText Stopped =
     ''PumpFunListener: Stopped.''"

text \<open>
  What the listener does to the outside, in order: a call of the logger, a call of
  \<open>JSON.parse\<close> with its argument, and a call of the registered callback number
  \<open>k\<close> with the token address and the token data.
\<close>

datatype effect =
    Log level log_message
  | JsonParse string
  | Invoke nat json json

text \<open>A registered callback is code of the application: \<open>cb a d\<close> is \<open>True\<close> when
  the call \<open>cb(a, d)\<close> returns, \<open>False\<close> when it throws.\<close>

type_synonym callback = "json \<Rightarrow> json \<Rightarrow> bool"

text \<open>
  The fields of the class. \<open>sockets\<close> is the heap of the \<open>WebSocket\<close> objects created
  so far, and \<open>ws\<close> the index of the one \<open>this.ws\<close> refers to (\<open>None\<close> for
  \<open>null\<close>). \<open>clientKeepAliveIntervalId\<close> holds the period of the running
  \<open>setInterval\<close> timer; \<open>reconnectTimers\<close> holds the delays of the \<open>setTimeout\<close>
  timers started by the \<open>'close'\<close> handler that have not fired yet (the code keeps no
  handle of them). The field \<open>pingIntervalId\<close> is never assigned, so the two
  \<open>clearInterval(this.pingIntervalId)\<close> do nothing and are left out.
\<close>

record listener =
  sockets :: "websocket list"
  ws :: "nat option"
  natsState :: NatsState
  clientKeepAliveIntervalId :: "nat option"
  reconnectTimers :: "nat list"
  newTokenCallbacks :: "callback list"
  trace :: "effect list"

definition reconnectInterval :: nat where
  "reconnectInterval = 5000"

definition clientKeepAliveIntervalMs :: nat where
  "clientKeepAliveIntervalMs = 15000"

definition SID_ADVANCED_COIN_GRADUATED :: string where
  "SID_ADVANCED_COIN_GRADUATED = ''2''"

definition newListener :: listener where
  "newListener =
     \<lparr>sockets = [], ws = None, natsState = DISCONNECTED, clientKeepAliveIntervalId = None,
      reconnectTimers = [], newTokenCallbacks = [], trace = []\<rparr>"

definition addTokenCallback :: "callback \<Rightarrow> listener \<Rightarrow> listener" where
  "addTokenCallback cb s = s\<lparr>newTokenCallbacks := newTokenCallbacks s @ [cb]\<rparr>"

definition emit :: "effect \<Rightarrow> listener \<Rightarrow> listener" where
  "emit e s = s\<lparr>trace := trace s @ [e]\<rparr>"

definition logger :: "level \<Rightarrow> log_message \<Rightarrow> listener \<Rightarrow> listener" where
  "logger lvl msg s = emit (Log lvl msg) s"

text \<open>The object \<open>this.ws\<close> refers to, if any.\<close>

definition thisWs :: "listener \<Rightarrow> websocket option" where
  "thisWs s = (case ws s of None \<Rightarrow> None | Some i \<Rightarrow> js_index (sockets s) i)"

definition updateSocket :: "nat \<Rightarrow> (websocket \<Rightarrow> websocket) \<Rightarrow> listener \<Rightarrow> listener" where
  "updateSocket i f s =
     (if i < length (sockets s) then s\<lparr>sockets := (sockets s)[i := f (sockets s ! i)]\<rparr> else s)"

subsection \<open>The listener's methods and handlers\<close>

definition sendNatsCommand :: "string \<Rightarrow> listener \<Rightarrow> listener" where
  "sendNatsCommand command s =
     (case ws s of
        None \<Rightarrow> logger Warn WebSocketNotOpen s
      | Some i \<Rightarrow>
          (case js_index (sockets s) i of
             None \<Rightarrow>
               logger Warn WebSocketNotOpen s
           | Some w \<Rightarrow>
               if readyState w = WS_OPEN
               then updateSocket i (\<lambda>w. w\<lparr>sent := sent w @ [command @ CRLF]\<rparr>)
                      (logger Debug SendingNatsCommand s)
               else logger Warn WebSocketNotOpen s))"

definition stopClientKeepAlive :: "listener \<Rightarrow> listener" where
  "stopClientKeepAlive s =
     (if clientKeepAliveIntervalId s \<noteq> None then s\<lparr>clientKeepAliveIntervalId := None\<rparr>
      else s)"

definition startClientKeepAlive :: "listener \<Rightarrow> listener" where
  "startClientKeepAlive s =
     (stopClientKeepAlive s)\<lparr>clientKeepAliveIntervalId := Some clientKeepAliveIntervalMs\<rparr>"

text \<open>The function \<open>startClientKeepAlive\<close> passes to \<open>setInterval\<close>.\<close>

definition clientKeepAliveTick :: "listener \<Rightarrow> listener" where
  "clientKeepAliveTick s =
     (case thisWs s of
        None \<Rightarrow> s
      | Some w \<Rightarrow>
          if readyState w = WS_OPEN \<and>
             (natsState s = OPERATIONAL \<or> natsState s = SUBSCRIBING \<or>
              natsState s = CONNECTED_AWAITING_PONG)
          then sendNatsCommand ''PING''
                 (logger Debug SendingClientPing s)
          else s)"

definition subscribeToTopics :: "listener \<Rightarrow> listener" where
  "subscribeToTopics s =
     (let s1 = logger Info SubscribingToTopics s;
          s2 = s1\<lparr>natsState := SUBSCRIBING\<rparr>;
          s3 = sendNatsCommand ''SUB coinImageUpdated.> 1'' s2;
          s4 = sendNatsCommand ''SUB advancedCoinGraduated 2'' s3;
          s5 = sendNatsCommand ''SUB advancedNewCoinCreated 3'' s4
      in logger Info SubscribedTo s5)"

text \<open>\<open>new WebSocket(url)\<close> puts a new object, in state \<open>CONNECTING\<close>, on the heap;
  \<open>connect\<close> registers its four listeners.\<close>

definition newWebSocket :: websocket where
  "newWebSocket =
     \<lparr>readyState = WS_CONNECTING, closeListener = True, errorListener = True,
      closeCalls = 0, sent = []\<rparr>"

definition connect :: "appConfig \<Rightarrow> listener \<Rightarrow> listener" where
  "connect cfg s =
     (if pumpFunWebsocketUrl cfg = []
      then (logger Error CannotConnectUrlNotConfigured s)
             \<lparr>natsState := DISCONNECTED\<rparr>
      else
        (let s1 = logger Info ConnectingTo s
         in s1\<lparr>natsState := CONNECTING,
                ws := Some (length (sockets s1)),
                sockets := sockets s1 @ [newWebSocket]\<rparr>))"

definition connectMsg :: string where
  \<open>connectMsg =
     ''{"no_responders":true,"protocol":1,"verbose":false,"pedantic":false,"user":"subscriber","pass":"OktDhmZ2D3CtYUiM","lang":"nats.ws","version":"1.29.2","headers":true}''\<close>

definition onOpen :: "listener \<Rightarrow> listener" where
  "onOpen s =
     (let s1 = logger Info ConnectionEstablished s;
          s2 = s1\<lparr>natsState := CONNECTED_WAITING_FOR_INFO_OR_PING\<rparr>;
          s3 = sendNatsCommand (''CONNECT '' @ connectMsg) s2
      in startClientKeepAlive s3)"

definition onError :: "listener \<Rightarrow> listener" where
  "onError s =
     (logger Error WebSocketError s)\<lparr>natsState := DISCONNECTED\<rparr>"

definition onClose :: "listener \<Rightarrow> listener" where
  "onClose s =
     (let s1 = logger Info WebSocketDisconnected s;
          s2 = s1\<lparr>natsState := DISCONNECTED\<rparr>;
          s3 = stopClientKeepAlive s2;
          s4 = logger Info AttemptingToReconnect s3
      in s4\<lparr>reconnectTimers := reconnectTimers s4 @ [reconnectInterval]\<rparr>)"

subsection \<open>\<open>handleNatsMsg\<close>\<close>

text \<open>Lines 181 to 186: the payload is what follows the first \<open>\r\n\<close> of the
  message, \<open>None\<close> when there is no \<open>\r\n\<close>.\<close>

definition payloadOf :: "string \<Rightarrow> string option" where
  "payloadOf messageStr =
     (let payloadIndex = indexOf messageStr CRLF
      in if payloadIndex = - 1 then None
         else Some (substring messageStr (payloadIndex + 2)))"

text \<open>Lines 192 to 198: one \<open>JSON.parse\<close>, and a second one when the first yields a
  string.\<close>

definition decodePayload ::
  "(string \<Rightarrow> json option) \<Rightarrow> string \<Rightarrow> listener \<Rightarrow> (js_exception + json) \<times> listener" where
  "decodePayload parse payloadStr s =
     (let s1 = emit (JsonParse payloadStr) s
      in case parse payloadStr of
           None \<Rightarrow> (Inl SyntaxError, s1)
         | Some (JString str) \<Rightarrow>
             (let s2 = logger Debug PayloadWasString s1;
                  s3 = emit (JsonParse str) s2
              in case parse str of
                   None \<Rightarrow> (Inl SyntaxError, s3)
                 | Some parsedPayload \<Rightarrow> (Inr parsedPayload, s3))
         | Some parsedPayload \<Rightarrow> (Inr parsedPayload, s1))"

text \<open>Line 202. Reading a property of \<open>null\<close> throws a \<open>TypeError\<close>.\<close>

definition tokenAddressOf :: "json \<Rightarrow> js_exception + json option" where
  "tokenAddressOf tokenData =
     (if tokenData = JNull then Inl TypeError
      else Inr (js_or (js_or (js_or (getProperty tokenData ''coinMint'')
                                    (getProperty tokenData ''mint''))
                             (getProperty tokenData ''token_address''))
                      (getProperty tokenData ''address'')))"

text \<open>Line 206: \<open>forEach\<close> calls the callbacks in registration order and stops at the
  first that throws.\<close>

fun forEachCallback ::
  "callback list \<Rightarrow> nat \<Rightarrow> json \<Rightarrow> json \<Rightarrow> listener \<Rightarrow> js_exception option \<times> listener" where
  "forEachCallback [] k tokenAddress tokenData s = (None, s)"
| "forEachCallback (cb # cbs) k tokenAddress tokenData s =
     (let s1 = emit (Invoke k tokenAddress tokenData) s
      in if cb tokenAddress tokenData
         then forEachCallback cbs (k + 1) tokenAddress tokenData s1
         else (Some (CallbackThrew k), s1))"

text \<open>Lines 199 to 209.\<close>

definition dispatch :: "json \<Rightarrow> listener \<Rightarrow> js_exception option \<times> listener" where
  "dispatch tokenData s =
     (case tokenAddressOf tokenData of
        Inl exn \<Rightarrow> (Some exn, s)
      | Inr tokenAddress \<Rightarrow>
          if truthy tokenAddress
          then forEachCallback (newTokenCallbacks s) 0 (the tokenAddress) tokenData
                 (logger Info NewGraduatedToken s)
          else (None, logger Warn MissingTokenAddress s))"

text \<open>The \<open>try\<close> block, lines 192 to 209.\<close>

definition tryBlock ::
  "(string \<Rightarrow> json option) \<Rightarrow> string \<Rightarrow> listener \<Rightarrow> js_exception option \<times> listener" where
  "tryBlock parse payloadStr s =
     (case decodePayload parse payloadStr s of
        (Inl exn, s1) \<Rightarrow> (Some exn, s1)
      | (Inr tokenData, s1) \<Rightarrow> dispatch tokenData s1)"

text \<open>The \<open>catch\<close> clause, lines 210 to 212, applied to the way the \<open>try\<close> block
  ended.\<close>

definition catchBlock :: "js_exception option \<times> listener \<Rightarrow> listener" where
  "catchBlock r =
     (case r of
        (None, s) \<Rightarrow> s
      | (Some exn, s) \<Rightarrow>
          logger Error ErrorParsingPayload s)"

text \<open>The messages for which \<open>handleNatsMsg\<close> reaches its \<open>try\<close> block, with the
  payload it passes to it: the conditions of lines 172, 182 and 190.\<close>

definition reachesDecode :: "string \<Rightarrow> string \<Rightarrow> bool" where
  "reachesDecode messageStr payloadStr =
     (4 \<le> length (split_ws messageStr) \<and>
      split_ws messageStr ! 2 = SID_ADVANCED_COIN_GRADUATED \<and>
      split_ws messageStr ! 1 = ''advancedCoinGraduated'' \<and>
      payloadOf messageStr = Some payloadStr)"

text \<open>
  \<open>handleNatsMsg\<close>. Everything that can throw (\<open>JSON.parse\<close>, the property read, the
  callbacks) stands in the \<open>try\<close> block, and the \<open>catch\<close> clause logs and returns:
  the handler has no exceptional exit.
\<close>

definition handleNatsMsg ::
  "(string \<Rightarrow> json option) \<Rightarrow> string \<Rightarrow> listener \<Rightarrow> listener" where
  "handleNatsMsg parse messageStr s =
     (let parts = split_ws messageStr
      in if length parts < 4
         then logger Warn MalformedNatsMsg s
         else
           (let subject = parts ! 1;
                sid = parts ! 2
            in case payloadOf messageStr of
                 None \<Rightarrow> logger Warn MissingPayloadSeparator s
               | Some payloadStr \<Rightarrow>
                   (let s1 = logger Debug NatsMsgReceived s
                    in if sid = SID_ADVANCED_COIN_GRADUATED \<and> subject = ''advancedCoinGraduated''
                       then catchBlock (tryBlock parse payloadStr s1)
                       else s1)))"

text \<open>The \<open>'message'\<close> handler.\<close>

definition onMessage :: "(string \<Rightarrow> json option) \<Rightarrow> string \<Rightarrow> listener \<Rightarrow> listener" where
  "onMessage parse data s =
     (let messageStr = trim data;
          s0 = logger Debug ReceivedRawMessage s
      in if startsWith messageStr ''INFO'' then
           (let s1 = logger Info ReceivedInfo s0
            in if natsState s1 = CONNECTED_WAITING_FOR_INFO_OR_PING
               then subscribeToTopics s1 else s1)
         else if messageStr = ''PING'' then
           (let s1 = sendNatsCommand ''PONG''
                       (logger Debug ReceivedPing s0)
            in if natsState s1 = CONNECTED_WAITING_FOR_INFO_OR_PING
               then subscribeToTopics (s1\<lparr>natsState := CONNECTED_AWAITING_PONG\<rparr>)
               else s1)
         else if startsWith messageStr ''MSG'' then handleNatsMsg parse messageStr s0
         else if messageStr = ''+OK'' then
           (let s1 = logger Debug ReceivedOk s0
            in if natsState s1 = SUBSCRIBING
               then logger Info SubscriptionsConfirmed
                      (s1\<lparr>natsState := OPERATIONAL\<rparr>)
               else s1)
         else if messageStr = ''PONG'' then
           logger Debug ReceivedPong s0
         else if startsWith messageStr ''-ERR'' then
           logger Error ReceivedNatsError s0
         else logger Warn ReceivedUnhandledMessage s0)"

subsection \<open>\<open>start\<close>, \<open>stop\<close> and the events\<close>

definition start :: "appConfig \<Rightarrow> listener \<Rightarrow> listener" where
  "start cfg s =
     (if pumpFunWebsocketUrl cfg = []
      then logger Warn UrlNotSetCannotStart s
      else if natsState s \<noteq> DISCONNECTED
      then logger Warn AlreadyStarted s
      else connect cfg s)"

text \<open>\<open>ws.close()\<close> of the library starts the closing handshake: the socket is
  \<open>CLOSING\<close> from then on.\<close>

definition wsClose :: "websocket \<Rightarrow> websocket" where
  "wsClose w = w\<lparr>readyState := WS_CLOSING, closeCalls := closeCalls w + 1\<rparr>"

definition stop :: "listener \<Rightarrow> listener" where
  "stop s =
     (let s1 = logger Info Stopping s;
          s2 = s1\<lparr>natsState := DISCONNECTED\<rparr>;
          s3 = stopClientKeepAlive s2;
          s4 = (case ws s3 of
                  None \<Rightarrow> s3
                | Some i \<Rightarrow>
                    (updateSocket i
                       (\<lambda>w. let w1 = w\<lparr>closeListener := False, errorListener := False\<rparr>
                            in if readyState w1 = WS_OPEN \<or> readyState w1 = WS_CONNECTING
                               then wsClose w1 else w1)
                       s3)\<lparr>ws := None\<rparr>)
      in logger Info Stopped s4)"

text \<open>
  What can happen to a listener: the application calls \<open>start\<close> or \<open>stop\<close>; the
  socket number \<open>i\<close> of the heap emits \<open>'open'\<close>, \<open>'message'\<close>, \<open>'error'\<close> or
  \<open>'close'\<close>; the oldest pending reconnect timer fires; the keep-alive interval ticks.
  The library sets the socket's \<open>readyState\<close> before it emits (\<open>OPEN\<close> on
  \<open>'open'\<close>, \<open>CLOSING\<close> on \<open>'error'\<close>, \<open>CLOSED\<close> on \<open>'close'\<close>), and an event
  reaches the listener only through a handler that is still attached to that socket.
\<close>

datatype event =
    Start
  | Stop
  | SocketOpen nat
  | SocketMessage nat string
  | SocketError nat
  | SocketClose nat
  | ReconnectTimerFires
  | KeepAliveTick

definition setReadyState :: "nat \<Rightarrow> readyState \<Rightarrow> listener \<Rightarrow> listener" where
  "setReadyState i r s = updateSocket i (\<lambda>w. w\<lparr>readyState := r\<rparr>) s"

definition step ::
  "appConfig \<Rightarrow> (string \<Rightarrow> json option) \<Rightarrow> listener \<Rightarrow> event \<Rightarrow> listener" where
  "step cfg parse s ev =
     (case ev of
        Start \<Rightarrow> start cfg s
      | Stop \<Rightarrow> stop s
      | SocketOpen i \<Rightarrow>
          (case js_index (sockets s) i of
             None \<Rightarrow> s
           | Some w \<Rightarrow> onOpen (setReadyState i WS_OPEN s))
      | SocketMessage i data \<Rightarrow>
          (case js_index (sockets s) i of
             None \<Rightarrow> s
           | Some w \<Rightarrow> onMessage parse data s)
      | SocketError i \<Rightarrow>
          (case js_index (sockets s) i of
             None \<Rightarrow> s
           | Some w \<Rightarrow>
               if errorListener w then onError (setReadyState i WS_CLOSING s)
               else setReadyState i WS_CLOSING s)
      | SocketClose i \<Rightarrow>
          (case js_index (sockets s) i of
             None \<Rightarrow> s
           | Some w \<Rightarrow>
               if closeListener w then onClose (setReadyState i WS_CLOSED s)
               else setReadyState i WS_CLOSED s)
      | ReconnectTimerFires \<Rightarrow>
          (case reconnectTimers s of
             [] \<Rightarrow> s
           | t # ts \<Rightarrow> connect cfg (s\<lparr>reconnectTimers := ts\<rparr>))
      | KeepAliveTick \<Rightarrow>
          (if clientKeepAliveIntervalId s \<noteq> None then clientKeepAliveTick s else s))"

definition run ::
  "appConfig \<Rightarrow> (string \<Rightarrow> json option) \<Rightarrow> listener \<Rightarrow> event list \<Rightarrow> listener" where
  "run cfg parse s evs = foldl (step cfg parse) s evs"

text \<open>The parts of a trace.\<close>

fun invocations :: "effect list \<Rightarrow> (nat \<times> json \<times> json) list" where
  "invocations [] = []"
| "invocations (Invoke k a d # es) = (k, a, d) # invocations es"
| "invocations (e # es) = invocations es"

fun parseCalls :: "effect list \<Rightarrow> string list" where
  "parseCalls [] = []"
| "parseCalls (JsonParse x # es) = x # parseCalls es"
| "parseCalls (e # es) = parseCalls es"

fun diagnostics :: "effect list \<Rightarrow> (level \<times> log_message) list" where
  "diagnostics [] = []"
| "diagnostics (Log lvl msg # es) =
     (if lvl = Warn \<or> lvl = Error then (lvl, msg) # diagnostics es else diagnostics es)"
| "diagnostics (e # es) = diagnostics es"

text \<open>The alias names in the order line 202 reads them, and what the spec describes:
  the value of the first alias that is present, and the value of the first alias whose
  value is truthy.\<close>

definition aliases :: "string list" where
  "aliases = [''coinMint'', ''mint'', ''token_address'', ''address'']"


fun firstTruthy :: "(string \<times> json) list \<Rightarrow> string list \<Rightarrow> json option" where
  "firstTruthy kvs [] = None"
| "firstTruthy kvs (a # as) =
     (if truthy (map_of kvs a) then map_of kvs a else firstTruthy kvs as)"

text \<open>Concrete inputs: a configuration with a stream URL, and \<open>JSON.parse\<close> on the
  payloads used below.\<close>

definition streamConfig :: appConfig where
  "streamConfig =
     \<lparr>rpcEndpoints = [], rpcRetryAttempts = 3, pumpFunWebsocketUrl = ''wss://stream.example''\<rparr>"

definition payloadMint :: string where
  \<open>payloadMint = ''{"mint":"X"}''\<close>

definition payloadMintAddress :: string where
  \<open>payloadMintAddress = ''{"mint":"X","address":"Y"}''\<close>

definition payloadEmptyCoinMint :: string where
  \<open>payloadEmptyCoinMint = ''{"coinMint":"","mint":"X"}''\<close>

definition payloadOnlyEmpty :: string where
  \<open>payloadOnlyEmpty = ''{"coinMint":"","address":""}''\<close>

definition payloadNoAlias :: string where
  \<open>payloadNoAlias = ''{"name":"N"}''\<close>

definition payloadDoubleEncoded :: string where
  \<open>payloadDoubleEncoded =
     (let q = [CHR 0x5C, CHR 0x22]
      in ''"{'' @ q @ ''mint'' @ q @ '':'' @ q @ ''X'' @ q @ ''}"'')\<close>

definition payloadNotJson :: string where
  "payloadNotJson = ''{oops''"

definition parseSamples :: "string \<Rightarrow> json option" where
  "parseSamples =
     map_of
       [(payloadMint, JObject [(''mint'', JString ''X'')]),
        (payloadMintAddress,
           JObject [(''mint'', JString ''X''), (''address'', JString ''Y'')]),
        (payloadEmptyCoinMint,
           JObject [(''coinMint'', JString ''''), (''mint'', JString ''X'')]),
        (payloadOnlyEmpty,
           JObject [(''coinMint'', JString ''''), (''address'', JString '''')]),
        (payloadNoAlias, JObject [(''name'', JString ''N'')]),
        (payloadDoubleEncoded, JString payloadMint)]"

text \<open>The frame the server sends for a header line and a payload, and a listener with
  one registered callback that returns.\<close>

definition frameOf :: "string \<Rightarrow> string \<Rightarrow> string" where
  "frameOf header payload = header @ CRLF @ payload @ CRLF"

definition listenerWithCallback :: listener where
  "listenerWithCallback = addTokenCallback (\<lambda>a d. True) newListener"


text \<open>The session after \<open>start\<close>, the socket's opening, its closing by the server, and
  \<open>stop\<close>.\<close>

definition stoppedListener :: listener where
  "stoppedListener =
     run streamConfig parseSamples newListener [Start, SocketOpen 0, SocketClose 0, Stop]"


section \<open>Properties of the RPC client\<close>

lemma attemptLoop_all_fail:
  assumes fail: "\<forall>k c. \<exists>e. action k c = Inl e \<and> chk e"
  shows "nat (rpcRetryAttempts cfg - attempt) = Suc n \<Longrightarrow>
    attemptLoop cfg action chk conn cycle attempt made =
      (if int cycle < int (length (rpcEndpoints cfg)) - 1 then Break
       else Thrown (projl (action (made + n) conn)),
       made + Suc n)"
proof (induction n arbitrary: attempt made)
  case 0
  from fail obtain e where e: "action made conn = Inl e" "chk e" by blast
  from 0 have "attempt < rpcRetryAttempts cfg" "\<not> attempt < rpcRetryAttempts cfg - 1" by linarith+
  then show ?case using e by (simp add: attemptLoop.simps [of cfg action chk conn cycle attempt made])
next
  case (Suc n)
  from fail obtain e where e: "action made conn = Inl e" "chk e" by blast
  from Suc.prems have lt: "attempt < rpcRetryAttempts cfg" "attempt < rpcRetryAttempts cfg - 1"
    and nx: "nat (rpcRetryAttempts cfg - (attempt + 1)) = Suc n" by linarith+
  show ?case
    using lt e Suc.IH [OF nx, of "made + 1"]
    by (simp add: attemptLoop.simps [of cfg action chk conn cycle attempt made])
qed

lemma attemptLoop_none:
  "\<not> attempt < rpcRetryAttempts cfg \<Longrightarrow>
     attemptLoop cfg action chk conn cycle attempt made = (LoopDone, made)"
  by (simp add: attemptLoop.simps)

lemma getSolanaConnection_nonempty:
  "rpcEndpoints cfg \<noteq> [] \<Longrightarrow>
     \<exists>c m1. getSolanaConnection cfg m = Inr (c, m1) \<and> currentConnection m1 = Some c
        \<and> currentRpcIndex m1 = currentRpcIndex m"
  by (cases "currentConnection m") (simp_all add: getSolanaConnection_def Let_def)

lemma cycleLoop_all_fail:
  assumes fail: "\<forall>k c. \<exists>e. action k c = Inl e \<and> chk e"
    and R: "0 < rpcRetryAttempts cfg"
  shows "length (rpcEndpoints cfg) - cycle = Suc n \<Longrightarrow>
    (let r = cycleLoop cfg action chk m cycle made;
         final = made + Suc n * nat (rpcRetryAttempts cfg)
     in totalAttemptsAcrossRpcs r = final \<and>
        (\<exists>c. currentConnection (module r) = Some c \<and>
             outcome r = Inl (ActionError (projl (action (final - 1) c)))))"
proof (induction n arbitrary: cycle m made)
  case 0
  then have ne: "rpcEndpoints cfg \<noteq> []" and c: "cycle < length (rpcEndpoints cfg)"
    "\<not> int cycle < int (length (rpcEndpoints cfg)) - 1" by auto
  from getSolanaConnection_nonempty [OF ne, of m] obtain c1 m1 where
    g: "(getSolanaConnection cfg m :: 'a rpc_error + _) = Inr (c1, m1)" "currentConnection m1 = Some c1" by blast
  obtain k where k: "nat (rpcRetryAttempts cfg - 0) = Suc k" using R by (cases "nat (rpcRetryAttempts cfg)") auto
  show ?case
    using c g k attemptLoop_all_fail [OF fail, of cfg 0 k c1 cycle made]
    by (simp add: cycleLoop.simps [of cfg action chk m cycle made] Let_def)
next
  case (Suc n)
  then have ne: "rpcEndpoints cfg \<noteq> []" and c: "cycle < length (rpcEndpoints cfg)"
    "int cycle < int (length (rpcEndpoints cfg)) - 1" 
    and nx: "length (rpcEndpoints cfg) - (cycle + 1) = Suc n" by auto
  from getSolanaConnection_nonempty [OF ne, of m] obtain c1 m1 where
    g: "(getSolanaConnection cfg m :: 'a rpc_error + _) = Inr (c1, m1)" "currentConnection m1 = Some c1" by blast
  obtain k where k: "nat (rpcRetryAttempts cfg - 0) = Suc k" using R by (cases "nat (rpcRetryAttempts cfg)") auto
  let ?m2 = "snd (switchToNextRpc cfg m1)"
  have step: "cycleLoop cfg action chk m cycle made = cycleLoop cfg action chk ?m2 (cycle + 1) (made + Suc k)"
    using c g k attemptLoop_all_fail [OF fail, of cfg 0 k c1 cycle made]
    by (simp add: cycleLoop.simps [of cfg action chk m cycle made])
  have ar: "made + Suc k + Suc n * nat (rpcRetryAttempts cfg) = made + Suc (Suc n) * nat (rpcRetryAttempts cfg)"
    using k by simp
  show ?case
    using Suc.IH [OF nx, of ?m2 "made + Suc k"]
    unfolding step Let_def ar .
qed


text \<open>
  Claim C1, as the code has it. With a non-empty pool of \<open>N\<close> endpoints, an attempt
  limit of at least one, and an action every invocation of which fails with an error the
  check accepts as retriable, \<open>executeRpcCall\<close> makes exactly \<open>N\<close> times
  \<open>rpcRetryAttempts\<close> attempts. The error it then throws is the error of the last
  attempt, rethrown by the inner loop on the last endpoint; it is not the fallback
  error of the function's last line.
\<close>

theorem executeRpcCall_all_retriable_failures:
  assumes fail: "\<forall>k c. \<exists>e. action k c = Inl e \<and> isFailoverErrorCheck e"
    and pool: "rpcEndpoints cfg \<noteq> []"
    and attempts: "0 < rpcRetryAttempts cfg"
  shows "let r = executeRpcCall cfg action isFailoverErrorCheck m;
             n = length (rpcEndpoints cfg) * nat (rpcRetryAttempts cfg)
         in totalAttemptsAcrossRpcs r = n \<and>
            (\<exists>c. currentConnection (module r) = Some c \<and>
                 outcome r = Inl (ActionError (projl (action (n - 1) c)))) \<and>
            outcome r \<noteq> Inl ExhaustedFailover"
proof -
  obtain n where n: "length (rpcEndpoints cfg) - 0 = Suc n"
    using pool by (cases "rpcEndpoints cfg") auto
  from cycleLoop_all_fail [OF fail attempts n, of m 0] n
  show ?thesis
    unfolding executeRpcCall_def Let_def by auto
qed

text \<open>The theorem at a pool of two endpoints with three attempts each.\<close>

theorem executeRpcCall_all_retriable_failures_witness:
  "let r = executeRpcCall (poolOf [''A'', ''B''] 3)
             (\<lambda>k c. Inl ''timeout'' :: string + unit) (\<lambda>e. e = ''timeout'') freshModule
   in totalAttemptsAcrossRpcs r = 6 \<and> outcome r = Inl (ActionError ''timeout'')"
  using executeRpcCall_all_retriable_failures
    [of "\<lambda>k c. Inl ''timeout'' :: string + unit" "\<lambda>e. e = ''timeout''"
        "poolOf [''A'', ''B''] 3" freshModule]
  by (auto simp: Let_def poolOf_def)

text \<open>Unfolding everything evaluates \<open>executeRpcCall\<close> on a concrete input.\<close>

lemmas rpc_eval =
  executeRpcCall_def cycleLoop.simps attemptLoop.simps getSolanaConnection_def
  switchToNextRpc_def createConnection_def js_index_def Let_def poolOf_def freshModule_def

text \<open>
  Claim C1 as the spec states it fails: on a pool of one endpoint with the default three
  attempts and an action that always times out, the three attempts are made, and the
  error thrown is the timeout, not the exhaustion error.
\<close>

theorem executeRpcCall_exhausted_counterexample:
  "\<not> (let r = executeRpcCall (poolOf [''A''] 3)
                (\<lambda>k c. Inl ''timeout'' :: string + unit) (\<lambda>e. e = ''timeout'') freshModule
       in totalAttemptsAcrossRpcs r = 1 * 3 \<and> outcome r = Inl ExhaustedFailover)"
  by (simp add: rpc_eval)

text \<open>The fallback error is what an empty pool gives: no attempt is made at all.\<close>

lemma executeRpcCall_empty_pool:
  "rpcEndpoints cfg = [] \<Longrightarrow>
     executeRpcCall cfg action chk m =
       \<lparr>outcome = Inl ExhaustedFailover, module = m, totalAttemptsAcrossRpcs = 0\<rparr>"
  by (simp add: executeRpcCall_def cycleLoop.simps)

text \<open>
  Claim C5. With a non-empty pool and an attempt limit of at least one (so that there
  is a first attempt), if the first invocation of the action, on the connection
  \<open>getSolanaConnection\<close> yields, fails with an error the check rejects, then
  \<open>executeRpcCall\<close> throws that same error after exactly one attempt, and the module
  is left as \<open>getSolanaConnection\<close> left it: \<open>currentRpcIndex\<close> is unchanged, no
  rotation took place.
\<close>

theorem executeRpcCall_non_retriable_first:
  assumes pool: "rpcEndpoints cfg \<noteq> []"
    and attempts: "0 < rpcRetryAttempts cfg"
    and cur: "getSolanaConnection cfg m = (Inr (conn, m1) :: 'e rpc_error + connection \<times> rpc_module)"
    and first: "action 0 conn = (Inl e :: 'e + 'a)"
    and nonretriable: "\<not> isFailoverErrorCheck e"
  shows "let r = executeRpcCall cfg action isFailoverErrorCheck m
         in outcome r = Inl (ActionError e) \<and>
            totalAttemptsAcrossRpcs r = 1 \<and>
            module r = m1 \<and>
            currentRpcIndex (module r) = currentRpcIndex m"
proof -
  have idx: "currentRpcIndex m1 = currentRpcIndex m"
    using cur by (cases "currentConnection m")
      (auto simp: getSolanaConnection_def Let_def split: if_splits)
  have inner: "attemptLoop cfg action isFailoverErrorCheck conn 0 0 0 = (Thrown e, 1)"
    using attempts first nonretriable
    by (simp add: attemptLoop.simps [of cfg action isFailoverErrorCheck conn 0 0 0])
  show ?thesis
    using pool cur inner idx
    by (simp add: executeRpcCall_def cycleLoop.simps [of cfg action isFailoverErrorCheck m 0 0])
qed

text \<open>The theorem on a pool of two whose current endpoint is the second.\<close>

theorem executeRpcCall_non_retriable_first_witness:
  "let r = executeRpcCall (poolOf [''A'', ''B''] 3)
             (\<lambda>k c. Inl ''invalid params'' :: string + unit) (\<lambda>e. e = ''timeout'')
             \<lparr>currentConnection = None, currentRpcIndex = 1\<rparr>
   in outcome r = Inl (ActionError ''invalid params'') \<and>
      totalAttemptsAcrossRpcs r = 1 \<and>
      currentRpcIndex (module r) = 1"
  using executeRpcCall_non_retriable_first
    [of "poolOf [''A'', ''B''] 3"
        "\<lparr>currentConnection = None, currentRpcIndex = 1\<rparr>"
        "Connection (Some ''B'')"
        "\<lparr>currentConnection = Some (Connection (Some ''B'')), currentRpcIndex = 1\<rparr>"
        "\<lambda>k c. Inl ''invalid params'' :: string + unit" "''invalid params''" "\<lambda>e. e = ''timeout''"]
  by (simp add: getSolanaConnection_def createConnection_def js_index_def Let_def poolOf_def)

text \<open>
  Claim C6. The pool is \<open>[A, B]\<close>, the attempt limit is 2, and the module points at
  \<open>A\<close> (index 0, with no connection yet or the connection to \<open>A\<close>). The action fails
  with retriable errors on its two invocations against \<open>A\<close> and succeeds on its third
  invocation, the first against \<open>B\<close>. Then \<open>executeRpcCall\<close> returns that result
  after exactly three attempts and leaves the module pointing at \<open>B\<close>.
\<close>

theorem executeRpcCall_failover_scenario:
  assumes pool: "rpcEndpoints cfg = [A, B]"
    and attempts: "rpcRetryAttempts cfg = 2"
    and idx: "currentRpcIndex m = 0"
    and cur: "currentConnection m = None \<or> currentConnection m = Some (Connection (Some A))"
    and a1: "action 0 (Connection (Some A)) = Inl e1" and r1: "isFailoverErrorCheck e1"
    and a2: "action 1 (Connection (Some A)) = Inl e2" and r2: "isFailoverErrorCheck e2"
    and b1: "action 2 (Connection (Some B)) = Inr v"
  shows "let r = executeRpcCall cfg action isFailoverErrorCheck m
         in outcome r = Inr v \<and>
            totalAttemptsAcrossRpcs r = 3 \<and>
            currentRpcIndex (module r) = 1 \<and>
            currentConnection (module r) = Some (Connection (Some B))"
proof -
  let ?A = "Connection (Some A)" and ?B = "Connection (Some B)"
  let ?mA = "m\<lparr>currentConnection := Some ?A\<rparr>"
  let ?mB = "?mA\<lparr>currentRpcIndex := 1, currentConnection := Some ?B\<rparr>"
  have g: "(getSolanaConnection cfg m :: 'a rpc_error + _) = Inr (?A, ?mA)"
    using cur pool idx
    by (auto simp: getSolanaConnection_def createConnection_def js_index_def Let_def)
  have innerA1: "attemptLoop cfg action isFailoverErrorCheck ?A 0 1 1 = (Break, 2)"
    using pool attempts a2 r2
    by (subst attemptLoop.simps) simp
  have innerA: "attemptLoop cfg action isFailoverErrorCheck ?A 0 0 0 = (Break, 2)"
    using pool attempts a1 r1 innerA1
    by (subst attemptLoop.simps) simp
  have sw: "snd (switchToNextRpc cfg ?mA) = ?mB"
    using pool idx by (simp add: switchToNextRpc_def createConnection_def js_index_def Let_def)
  have g2: "(getSolanaConnection cfg ?mB :: 'a rpc_error + _) = Inr (?B, ?mB)"
    by (simp add: getSolanaConnection_def)
  have innerB: "attemptLoop cfg action isFailoverErrorCheck ?B 1 0 2 = (Returned v, 3)"
    using attempts b1
    by (subst attemptLoop.simps) simp
  have c2: "cycleLoop cfg action isFailoverErrorCheck ?mB 1 2 =
      \<lparr>outcome = Inr v, module = ?mB, totalAttemptsAcrossRpcs = 3\<rparr>"
    using pool g2 innerB
    by (subst cycleLoop.simps) simp
  have c1: "cycleLoop cfg action isFailoverErrorCheck m 0 0 =
      cycleLoop cfg action isFailoverErrorCheck ?mB 1 2"
    using pool g innerA sw
    by (subst cycleLoop.simps) simp
  show ?thesis
    unfolding executeRpcCall_def c1 c2 by simp
qed

text \<open>The scenario with an action that times out on every endpoint but \<open>B\<close>.\<close>

theorem executeRpcCall_failover_scenario_witness:
  "let r = executeRpcCall (poolOf [''A'', ''B''] 2)
             (\<lambda>k c. if c = Connection (Some ''B'') then Inr (42::nat) else Inl ''timeout'')
             (\<lambda>e. e = ''timeout'') freshModule
   in outcome r = Inr 42 \<and> totalAttemptsAcrossRpcs r = 3 \<and>
      currentConnection (module r) = Some (Connection (Some ''B''))"
  using executeRpcCall_failover_scenario
    [of "poolOf [''A'', ''B''] 2" "''A''" "''B''" freshModule
        "\<lambda>k c. if c = Connection (Some ''B'') then Inr (42::nat) else Inl ''timeout''"
        "''timeout''" "\<lambda>e. e = ''timeout''" "''timeout''" 42]
  by (simp add: Let_def poolOf_def freshModule_def)


section \<open>Properties of the listener\<close>

subsection \<open>Locating the payload\<close>

lemma indexOf_ge: "- 1 \<le> indexOf s p"
  by (induction s) (auto simp: Let_def)

lemma indexOf_append_CRLF:
  "indexOf h CRLF = - 1 \<Longrightarrow> indexOf (h @ CRLF @ r) CRLF = int (length h)"
proof (induction h)
  case Nil
  then show ?case by (simp add: CRLF_def startsWith_def)
next
  case (Cons c t)
  from Cons.prems have ns: "\<not> startsWith (c # t) CRLF" and it: "indexOf t CRLF = - 1"
    using indexOf_ge [of t CRLF] by (auto simp: Let_def split: if_splits)
  have "\<not> startsWith ((c # t) @ CRLF @ r) CRLF"
    using ns by (cases t) (auto simp: startsWith_def CRLF_def)
  then show ?case using Cons.IH [OF it] by (simp add: Let_def)
qed

lemma dropWhile_rev_all:
  "\<forall>c \<in> set w. P c \<Longrightarrow> xs \<noteq> [] \<Longrightarrow> \<not> P (last xs) \<Longrightarrow>
     dropWhile P (rev (xs @ w)) = rev xs"
proof -
  assume w: "\<forall>c \<in> set w. P c" and ne: "xs \<noteq> []" and l: "\<not> P (last xs)"
  have "dropWhile P (rev w @ rev xs) = dropWhile P (rev xs)"
    using w by (simp add: dropWhile_append)
  moreover have "dropWhile P (rev xs) = rev xs"
    using ne l by (cases "rev xs") (auto simp: last_rev hd_rev dest: arg_cong [where f = hd])
  ultimately show ?thesis by simp
qed

lemma trim_frame:
  assumes "h \<noteq> []" "\<not> isWhiteSpace (hd h)" "p \<noteq> []" "\<not> isWhiteSpace (last p)"
  shows "trim (h @ CRLF @ p @ CRLF) = h @ CRLF @ p"
proof -
  have front: "dropWhile isWhiteSpace (h @ CRLF @ p @ CRLF) = h @ CRLF @ p @ CRLF"
    using assms(1,2) by (cases h) auto
  have ws: "\<forall>c \<in> set CRLF. isWhiteSpace c"
    by (simp add: CRLF_def isWhiteSpace_def)
  have "dropWhile isWhiteSpace (rev ((h @ CRLF @ p) @ CRLF)) = rev (h @ CRLF @ p)"
    using assms(3,4) by (intro dropWhile_rev_all [OF ws]) auto
  then show ?thesis
    unfolding trim_def front by simp
qed
lemmas string_eval =
  trim_def isWhiteSpace_def CRLF_def payloadOf_def startsWith_def substring_def
  split_ws.simps Let_def

text \<open>
  Claim C2, as the code has it. The handler does not read the declared byte count (the
  line that parsed it is commented out): the payload starts after the first \<open>\r\n\<close>
  of the trimmed message and runs to its end. For a frame \<open>header\r\npayload\r\n\<close>
  whose header starts with a character that is not white space and contains no
  \<open>\r\n\<close>, and whose payload is not empty and does not end with white space, what is
  extracted is the payload, whatever count the header declares and whatever
  \<open>\r\n\<close> the payload contains.
\<close>

theorem payloadOf_frame:
  assumes "header \<noteq> []" and "\<not> isWhiteSpace (hd header)"
    and "indexOf header CRLF = - 1"
    and "payload \<noteq> []" and "\<not> isWhiteSpace (last payload)"
  shows "payloadOf (trim (header @ CRLF @ payload @ CRLF)) = Some payload"
proof -
  have t: "trim (header @ CRLF @ payload @ CRLF) = header @ CRLF @ payload"
    using assms(1,2,4,5) by (rule trim_frame)
  have i: "indexOf (header @ CRLF @ payload) CRLF = int (length header)"
    using assms(3) by (rule indexOf_append_CRLF)
  have d: "drop (nat (int (length header) + 2)) (header @ CRLF @ payload) = payload"
    by (simp add: CRLF_def nat_add_distrib)
  show ?thesis
    unfolding payloadOf_def t i Let_def substring_def d by simp
qed

text \<open>A payload of two lines, under a header that declares a count of 2.\<close>

theorem payloadOf_frame_witness:
  "payloadOf (trim (''MSG advancedCoinGraduated 2 2'' @ CRLF @ (''{'' @ CRLF @ ''}'') @ CRLF))
     = Some (''{'' @ CRLF @ ''}'')"
  using payloadOf_frame [of "''MSG advancedCoinGraduated 2 2''" "''{'' @ CRLF @ ''}''"]
  by (simp add: isWhiteSpace_def CRLF_def startsWith_def)

text \<open>
  Claim C2 as the spec states it fails: a frame that declares 4 bytes and carries the
  4 bytes \<open>{}\r\n\<close> has the payload \<open>{}\<close> extracted, 2 bytes, since the message is
  trimmed before it is handled.
\<close>

theorem payloadOf_declared_length_counterexample:
  "length (''{}'' @ CRLF) = 4 \<and>
   payloadOf (trim (''MSG advancedCoinGraduated 2 4'' @ CRLF @ (''{}'' @ CRLF) @ CRLF))
     = Some ''{}'' \<and>
   payloadOf (trim (''MSG advancedCoinGraduated 2 4'' @ CRLF @ (''{}'' @ CRLF) @ CRLF))
     \<noteq> Some (''{}'' @ CRLF)"
  by (simp add: string_eval)

text \<open>An empty payload leaves no \<open>\r\n\<close> in the trimmed message.\<close>

lemma payloadOf_empty_payload:
  "payloadOf (trim (''MSG advancedCoinGraduated 2 0'' @ CRLF @ [] @ CRLF)) = None"
  by (simp add: string_eval)
subsection \<open>What the handlers leave alone\<close>

lemma trace_emit [simp]: "trace (emit e s) = trace s @ [e]"
  by (simp add: emit_def)

lemma trace_logger [simp]: "trace (logger lvl msg s) = trace s @ [Log lvl msg]"
  by (simp add: logger_def)

lemma emit_only_trace: "emit e s = s\<lparr>trace := trace (emit e s)\<rparr>"
  by (simp add: emit_def)

lemma logger_only_trace: "logger lvl msg s = s\<lparr>trace := trace (logger lvl msg s)\<rparr>"
  by (simp add: logger_def emit_def)

lemma callbacks_emit [simp]: "newTokenCallbacks (emit e s) = newTokenCallbacks s"
  by (simp add: emit_def)

lemma callbacks_logger [simp]: "newTokenCallbacks (logger lvl msg s) = newTokenCallbacks s"
  by (simp add: logger_def)

lemma natsState_emit [simp]: "natsState (emit e s) = natsState s"
  by (simp add: emit_def)

lemma natsState_logger [simp]: "natsState (logger lvl msg s) = natsState s"
  by (simp add: logger_def)

lemma invocations_append [simp]:
  "invocations (xs @ ys) = invocations xs @ invocations ys"
  by (induction xs rule: invocations.induct) simp_all

lemma parseCalls_append [simp]:
  "parseCalls (xs @ ys) = parseCalls xs @ parseCalls ys"
  by (induction xs rule: parseCalls.induct) simp_all

lemma diagnostics_append [simp]:
  "diagnostics (xs @ ys) = diagnostics xs @ diagnostics ys"
  by (induction xs rule: diagnostics.induct) simp_all

lemma forEachCallback_only_trace:
  "snd (forEachCallback cbs k a d s) = s\<lparr>trace := trace (snd (forEachCallback cbs k a d s))\<rparr>"
proof (induction cbs arbitrary: k s)
  case Nil
  then show ?case by simp
next
  case (Cons cb cbs)
  show ?case
  proof (cases "cb a d")
    case True
    then show ?thesis
      using Cons.IH [of "k + 1" "emit (Invoke k a d) s"]
      by (simp add: Let_def) (simp add: emit_def)
  next
    case False
    then show ?thesis by (simp add: Let_def emit_def)
  qed
qed

lemma forEachCallback_parseCalls [simp]:
  "parseCalls (trace (snd (forEachCallback cbs k a d s))) = parseCalls (trace s)"
  by (induction cbs arbitrary: k s) (simp_all add: Let_def)

lemma forEachCallback_diagnostics [simp]:
  "diagnostics (trace (snd (forEachCallback cbs k a d s))) = diagnostics (trace s)"
  by (induction cbs arbitrary: k s) (simp_all add: Let_def)

lemma dispatch_only_trace:
  "snd (dispatch v s) = s\<lparr>trace := trace (snd (dispatch v s))\<rparr>"
proof (cases "tokenAddressOf v")
  case (Inl exn)
  then show ?thesis by (simp add: dispatch_def)
next
  case (Inr a)
  show ?thesis
  proof (cases "truthy a")
    case True
    let ?s1 = "logger Info NewGraduatedToken s"
    have "snd (forEachCallback (newTokenCallbacks ?s1) 0 (the a) v ?s1)
        = ?s1\<lparr>trace := trace (snd (forEachCallback (newTokenCallbacks ?s1) 0 (the a) v ?s1))\<rparr>"
      by (rule forEachCallback_only_trace)
    then show ?thesis
      using Inr True by (simp add: dispatch_def) (simp add: logger_def emit_def)
  next
    case False
    then show ?thesis using Inr by (simp add: dispatch_def logger_def emit_def)
  qed
qed

lemma dispatch_parseCalls [simp]:
  "parseCalls (trace (snd (dispatch v s))) = parseCalls (trace s)"
  by (simp add: dispatch_def split: sum.split)

lemma decodePayload_only_trace:
  "snd (decodePayload parse p s) = s\<lparr>trace := trace (snd (decodePayload parse p s))\<rparr>"
  by (simp add: decodePayload_def Let_def logger_def emit_def split: option.split json.split)

lemma decodePayload_result:
  "fst (decodePayload parse p s) =
     (case parse p of
        None \<Rightarrow> Inl SyntaxError
      | Some (JString str) \<Rightarrow> (case parse str of None \<Rightarrow> Inl SyntaxError | Some v \<Rightarrow> Inr v)
      | Some v \<Rightarrow> Inr v)"
  by (simp add: decodePayload_def Let_def split: option.split json.split)

lemma tryBlock_only_trace:
  "snd (tryBlock parse p s) = s\<lparr>trace := trace (snd (tryBlock parse p s))\<rparr>"
proof (cases "decodePayload parse p s")
  case (Pair r s1)
  then have s1: "s1 = s\<lparr>trace := trace s1\<rparr>"
    using decodePayload_only_trace [of parse p s] by simp
  show ?thesis
  proof (cases r)
    case (Inl exn)
    then show ?thesis using Pair s1 by (simp add: tryBlock_def)
  next
    case (Inr v)
    have "snd (dispatch v s1) = s1\<lparr>trace := trace (snd (dispatch v s1))\<rparr>"
      by (rule dispatch_only_trace)
    then have "snd (dispatch v s1) = s\<lparr>trace := trace (snd (dispatch v s1))\<rparr>"
      by (subst (asm) (2) s1) simp
    then show ?thesis using Pair Inr by (simp add: tryBlock_def)
  qed
qed

lemma catchBlock_only_trace:
  "snd r = s\<lparr>trace := trace (snd r)\<rparr> \<Longrightarrow> catchBlock r = s\<lparr>trace := trace (catchBlock r)\<rparr>"
proof (cases r)
  case (Pair x s1)
  assume "snd r = s\<lparr>trace := trace (snd r)\<rparr>"
  then have s1: "s1 = s\<lparr>trace := trace s1\<rparr>" using Pair by simp
  show ?thesis
  proof (cases x)
    case None
    then show ?thesis using Pair s1 by (simp add: catchBlock_def)
  next
    case (Some exn)
    have "logger Error ErrorParsingPayload s1
        = s\<lparr>trace := trace s1 @
            [Log Error ErrorParsingPayload]\<rparr>"
      by (subst s1) (simp add: logger_def emit_def)
    then show ?thesis using Pair Some by (simp add: catchBlock_def)
  qed
qed

text \<open>\<open>handleNatsMsg\<close> changes no field of the listener: all it does is in the trace.
  In particular the session state is what it was.\<close>

lemma handleNatsMsg_only_trace:
  "handleNatsMsg parse m s = s\<lparr>trace := trace (handleNatsMsg parse m s)\<rparr>"
proof -
  let ?s1 = "logger Debug NatsMsgReceived s"
  have s1: "?s1 = s\<lparr>trace := trace ?s1\<rparr>" by (rule logger_only_trace)
  have c: "catchBlock (tryBlock parse p ?s1) = s\<lparr>trace := trace (catchBlock (tryBlock parse p ?s1))\<rparr>"
    for p
  proof -
    have "snd (tryBlock parse p ?s1) = ?s1\<lparr>trace := trace (snd (tryBlock parse p ?s1))\<rparr>"
      by (rule tryBlock_only_trace)
    then have "snd (tryBlock parse p ?s1) = s\<lparr>trace := trace (snd (tryBlock parse p ?s1))\<rparr>"
      by (simp add: logger_def emit_def)
    then show ?thesis by (rule catchBlock_only_trace)
  qed
  show ?thesis
    unfolding handleNatsMsg_def Let_def
    using c s1 logger_only_trace
    by (auto split: option.split)
qed

lemma handleNatsMsg_natsState: "natsState (handleNatsMsg parse m s) = natsState s"
  by (subst handleNatsMsg_only_trace) simp

subsection \<open>The three ways \<open>handleNatsMsg\<close> goes\<close>

lemma handleNatsMsg_malformed:
  "length (split_ws m) < 4 \<Longrightarrow>
     handleNatsMsg parse m s = logger Warn MalformedNatsMsg s"
  by (simp add: handleNatsMsg_def)

lemma handleNatsMsg_no_separator:
  "4 \<le> length (split_ws m) \<Longrightarrow> payloadOf m = None \<Longrightarrow>
     handleNatsMsg parse m s =
       logger Warn MissingPayloadSeparator s"
  by (simp add: handleNatsMsg_def)

lemma handleNatsMsg_reaches:
  "reachesDecode m p \<Longrightarrow>
     handleNatsMsg parse m s =
       catchBlock (tryBlock parse p (logger Debug NatsMsgReceived s))"
  by (simp add: handleNatsMsg_def reachesDecode_def)

lemma catchBlock_parseCalls [simp]:
  "parseCalls (trace (catchBlock r)) = parseCalls (trace (snd r))"
  by (cases r) (simp add: catchBlock_def split: option.split)

lemma catchBlock_invocations [simp]:
  "invocations (trace (catchBlock r)) = invocations (trace (snd r))"
  by (cases r) (simp add: catchBlock_def split: option.split)
subsection \<open>Decoding the payload\<close>

lemmas listener_eval =
  onMessage_def handleNatsMsg_def catchBlock_def tryBlock_def decodePayload_def dispatch_def
  tokenAddressOf_def js_or_def logger_def emit_def SID_ADVANCED_COIN_GRADUATED_def
  newListener_def addTokenCallback_def listenerWithCallback_def frameOf_def reachesDecode_def

lemmas sample_eval =
  parseSamples_def payloadMint_def payloadMintAddress_def payloadEmptyCoinMint_def
  payloadOnlyEmpty_def payloadNoAlias_def payloadDoubleEncoded_def payloadNotJson_def

text \<open>
  Claim C7. For a message that reaches the \<open>try\<close> block with payload \<open>p\<close>: when
  \<open>JSON.parse p\<close> is a string \<open>str\<close>, the handler calls \<open>JSON.parse\<close> exactly once
  more, on \<open>str\<close>, and goes on with the result of that second call as the token data
  (or to the \<open>catch\<close> clause when the second call throws); when \<open>JSON.parse p\<close> is
  any other value, there is no second call and the handler goes on with that value.
\<close>

theorem handleNatsMsg_decode_passes:
  assumes "reachesDecode m p"
  shows
    "(\<forall>str. parse p = Some (JString str) \<longrightarrow>
        (let s3 = emit (JsonParse str)
                    (logger Debug PayloadWasString
                       (emit (JsonParse p)
                          (logger Debug NatsMsgReceived s)))
         in handleNatsMsg parse m s =
              catchBlock (case parse str of
                            None \<Rightarrow> (Some SyntaxError, s3)
                          | Some tokenData \<Rightarrow> dispatch tokenData s3)) \<and>
        parseCalls (trace (handleNatsMsg parse m s)) = parseCalls (trace s) @ [p, str]) \<and>
     (\<forall>v. parse p = Some v \<and> (\<forall>str. v \<noteq> JString str) \<longrightarrow>
        handleNatsMsg parse m s =
          catchBlock (dispatch v
            (emit (JsonParse p) (logger Debug NatsMsgReceived s))) \<and>
        parseCalls (trace (handleNatsMsg parse m s)) = parseCalls (trace s) @ [p])"
proof -
  let ?s1 = "logger Debug NatsMsgReceived s"
  let ?s2 = "emit (JsonParse p) ?s1"
  have h: "handleNatsMsg parse m s = catchBlock (tryBlock parse p ?s1)"
    using assms by (rule handleNatsMsg_reaches)
  have twice: "handleNatsMsg parse m s =
        catchBlock (case parse str of
                      None \<Rightarrow> (Some SyntaxError, s3)
                    | Some tokenData \<Rightarrow> dispatch tokenData s3) \<and>
      parseCalls (trace (handleNatsMsg parse m s)) = parseCalls (trace s) @ [p, str]"
    if str: "parse p = Some (JString str)"
      and s3: "s3 = emit (JsonParse str)
                 (logger Debug PayloadWasString ?s2)"
    for str s3
  proof -
    have t: "tryBlock parse p ?s1 =
        (case parse str of None \<Rightarrow> (Some SyntaxError, s3) | Some tokenData \<Rightarrow> dispatch tokenData s3)"
      using str s3 by (simp add: tryBlock_def decodePayload_def Let_def split: option.split)
    have "parseCalls (trace (snd (tryBlock parse p ?s1))) = parseCalls (trace s3)"
      unfolding t by (cases "parse str") simp_all
    also have "\<dots> = parseCalls (trace s) @ [p, str]"
      unfolding s3 by simp
    finally show ?thesis
      unfolding h using t by simp
  qed
  have once: "handleNatsMsg parse m s = catchBlock (dispatch v ?s2) \<and>
      parseCalls (trace (handleNatsMsg parse m s)) = parseCalls (trace s) @ [p]"
    if v: "parse p = Some v" and ns: "\<forall>str. v \<noteq> JString str" for v
  proof -
    have t: "tryBlock parse p ?s1 = dispatch v ?s2"
      using v ns by (cases v) (simp_all add: tryBlock_def decodePayload_def Let_def)
    show ?thesis
      unfolding h t by simp
  qed
  show ?thesis
    unfolding Let_def using twice [OF _ refl] once by blast
qed
text \<open>A double-encoded payload is parsed twice, a plain one once.\<close>

theorem handleNatsMsg_decode_passes_witness:
  "parseCalls (trace (handleNatsMsg parseSamples
       (''MSG advancedCoinGraduated 2 18'' @ CRLF @ payloadDoubleEncoded) listenerWithCallback))
     = [payloadDoubleEncoded, payloadMint] \<and>
   parseCalls (trace (handleNatsMsg parseSamples
       (''MSG advancedCoinGraduated 2 12'' @ CRLF @ payloadMint) listenerWithCallback))
     = [payloadMint]"
proof -
  let ?m1 = "''MSG advancedCoinGraduated 2 18'' @ CRLF @ payloadDoubleEncoded"
  let ?m2 = "''MSG advancedCoinGraduated 2 12'' @ CRLF @ payloadMint"
  have r1: "reachesDecode ?m1 payloadDoubleEncoded"
    by (simp add: reachesDecode_def SID_ADVANCED_COIN_GRADUATED_def string_eval sample_eval)
  have r2: "reachesDecode ?m2 payloadMint"
    by (simp add: reachesDecode_def SID_ADVANCED_COIN_GRADUATED_def string_eval sample_eval)
  have p1: "parseSamples payloadDoubleEncoded = Some (JString payloadMint)"
    by (simp add: sample_eval)
  have p2: "parseSamples payloadMint = Some (JObject [(''mint'', JString ''X'')])"
    by (simp add: sample_eval)
  have t0: "parseCalls (trace listenerWithCallback) = []"
    by (simp add: listenerWithCallback_def addTokenCallback_def newListener_def)
  from handleNatsMsg_decode_passes [OF r1, of parseSamples listenerWithCallback] p1
  have "parseCalls (trace (handleNatsMsg parseSamples ?m1 listenerWithCallback))
      = parseCalls (trace listenerWithCallback) @ [payloadDoubleEncoded, payloadMint]"
    by blast
  moreover
  from handleNatsMsg_decode_passes [OF r2, of parseSamples listenerWithCallback] p2
  have "parseCalls (trace (handleNatsMsg parseSamples ?m2 listenerWithCallback))
      = parseCalls (trace listenerWithCallback) @ [payloadMint]"
    by blast
  ultimately show ?thesis
    unfolding t0 by simp
qed

subsection \<open>Extracting the token address and dispatching\<close>

lemma decodePayload_invocations [simp]:
  "invocations (trace (snd (decodePayload parse p s))) = invocations (trace s)"
  by (simp add: decodePayload_def Let_def split: option.split json.split)

lemma decodePayload_diagnostics [simp]:
  "diagnostics (trace (snd (decodePayload parse p s))) = diagnostics (trace s)"
  by (simp add: decodePayload_def Let_def split: option.split json.split)

lemma decodePayload_fst_any: "fst (decodePayload parse p s) = fst (decodePayload parse p s')"
  by (simp add: decodePayload_result)

text \<open>A message that reaches the \<open>try\<close> block and whose decoded token data has no
  truthy alias: no callback is called, and one warning is logged.\<close>

lemma handleNatsMsg_no_identifier:
  assumes r: "reachesDecode m p"
    and d: "fst (decodePayload parse p s) = Inr tokenData"
    and a: "tokenAddressOf tokenData = Inr a"
    and f: "\<not> truthy a"
  shows "invocations (trace (handleNatsMsg parse m s)) = invocations (trace s) \<and>
         diagnostics (trace (handleNatsMsg parse m s)) =
           diagnostics (trace s) @
             [(Warn, MissingTokenAddress)]"
proof -
  let ?s1 = "logger Debug NatsMsgReceived s"
  obtain s2 where dp: "decodePayload parse p ?s1 = (Inr tokenData, s2)"
    using d decodePayload_fst_any [of parse p ?s1 s] by (cases "decodePayload parse p ?s1") simp
  have i2: "invocations (trace s2) = invocations (trace s)"
    using decodePayload_invocations [of parse p ?s1] dp by simp
  have d2: "diagnostics (trace s2) = diagnostics (trace s)"
    using decodePayload_diagnostics [of parse p ?s1] dp by simp
  have "handleNatsMsg parse m s =
      logger Warn MissingTokenAddress s2"
    using dp a f
    by (simp add: handleNatsMsg_reaches [OF r] tryBlock_def dispatch_def catchBlock_def)
  then show ?thesis using i2 d2 by simp
qed


lemma handleNatsMsg_decode_failure:
  assumes r: "reachesDecode m p"
    and d: "fst (decodePayload parse p s) = Inl exn"
  shows "invocations (trace (handleNatsMsg parse m s)) = invocations (trace s) \<and>
         diagnostics (trace (handleNatsMsg parse m s)) =
           diagnostics (trace s) @
             [(Error, ErrorParsingPayload)]"
proof -
  let ?s1 = "logger Debug NatsMsgReceived s"
  obtain s2 where dp: "decodePayload parse p ?s1 = (Inl exn, s2)"
    using d decodePayload_fst_any [of parse p ?s1 s] by (cases "decodePayload parse p ?s1") simp
  have i2: "invocations (trace s2) = invocations (trace s)"
    using decodePayload_invocations [of parse p ?s1] dp by simp
  have d2: "diagnostics (trace s2) = diagnostics (trace s)"
    using decodePayload_diagnostics [of parse p ?s1] dp by simp
  have "handleNatsMsg parse m s =
      logger Error ErrorParsingPayload s2"
    using dp
    by (simp add: handleNatsMsg_reaches [OF r] tryBlock_def catchBlock_def)
  then show ?thesis using i2 d2 by simp
qed

text \<open>Line 202 on an object, in the spec's two readings.\<close>

lemma tokenAddressOf_object:
  "tokenAddressOf (JObject kvs) =
     Inr (js_or (js_or (js_or (map_of kvs ''coinMint'') (map_of kvs ''mint''))
                       (map_of kvs ''token_address''))
                (map_of kvs ''address''))"
  by (simp add: tokenAddressOf_def)

lemma tokenAddressOf_firstTruthy:
  "truthy (firstTruthy kvs aliases) \<Longrightarrow>
     tokenAddressOf (JObject kvs) = Inr (firstTruthy kvs aliases)"
  by (simp add: tokenAddressOf_object aliases_def js_or_def split: if_splits)

lemma tokenAddressOf_truthy_iff:
  "tokenAddressOf (JObject kvs) = Inr a \<Longrightarrow>
     truthy a \<longleftrightarrow> (\<exists>n \<in> set aliases. truthy (map_of kvs n))"
  by (auto simp: tokenAddressOf_object aliases_def js_or_def split: if_splits)



text \<open>
  Claim C10. The aliases are chained with \<open>||\<close>: the token address is the value of the
  first alias whose value is truthy, so an alias that is present with a falsy value
  (the empty string, say) is passed over like an absent one; the object
  \<open>{"coinMint":"","mint":"X"}\<close> yields \<open>"X"\<close>. When every alias is absent or holds the
  empty string, the token address counts as missing: the handler logs the warning and
  calls no callback.
\<close>

theorem tokenAddress_falsy_alias_skipped:
  "(truthy (firstTruthy kvs aliases) \<longrightarrow>
      tokenAddressOf (JObject kvs) = Inr (firstTruthy kvs aliases)) \<and>
   tokenAddressOf (JObject [(''coinMint'', JString ''''), (''mint'', JString ''X'')])
     = Inr (Some (JString ''X'')) \<and>
   ((\<forall>n \<in> set aliases. map_of kvs n = None \<or> map_of kvs n = Some (JString '''')) \<and>
    reachesDecode m p \<and> fst (decodePayload parse p s) = Inr (JObject kvs) \<longrightarrow>
      invocations (trace (handleNatsMsg parse m s)) = invocations (trace s) \<and>
      diagnostics (trace (handleNatsMsg parse m s)) =
        diagnostics (trace s) @
          [(Warn, MissingTokenAddress)])"
proof (intro conjI impI)
  assume "truthy (firstTruthy kvs aliases)"
  then show "tokenAddressOf (JObject kvs) = Inr (firstTruthy kvs aliases)"
    by (rule tokenAddressOf_firstTruthy)
next
  show "tokenAddressOf (JObject [(''coinMint'', JString ''''), (''mint'', JString ''X'')])
     = Inr (Some (JString ''X''))"
    by (simp add: tokenAddressOf_object js_or_def)
next
  assume h: "(\<forall>n \<in> set aliases. map_of kvs n = None \<or> map_of kvs n = Some (JString '''')) \<and>
    reachesDecode m p \<and> fst (decodePayload parse p s) = Inr (JObject kvs)"
  obtain a where a: "tokenAddressOf (JObject kvs) = Inr a"
    by (simp add: tokenAddressOf_object)
  have "\<not> truthy (map_of kvs n)" if "n \<in> set aliases" for n
  proof -
    from h that have "map_of kvs n = None \<or> map_of kvs n = Some (JString '''')" by blast
    then show ?thesis by auto
  qed
  then have f: "\<not> truthy a"
    using tokenAddressOf_truthy_iff [OF a] by blast
  from handleNatsMsg_no_identifier [of m p parse s "JObject kvs" a] h a f
  show "invocations (trace (handleNatsMsg parse m s)) = invocations (trace s)"
    and "diagnostics (trace (handleNatsMsg parse m s)) =
        diagnostics (trace s) @
          [(Warn, MissingTokenAddress)]"
    by simp_all
qed

text \<open>The theorem on the object of the claim, and on a message whose payload has two
  aliases, both empty, received by a listener with one callback.\<close>

theorem tokenAddress_falsy_alias_skipped_witness:
  "tokenAddressOf (JObject [(''coinMint'', JString ''''), (''mint'', JString ''X'')])
     = Inr (firstTruthy [(''coinMint'', JString ''''), (''mint'', JString ''X'')] aliases) \<and>
   firstTruthy [(''coinMint'', JString ''''), (''mint'', JString ''X'')] aliases
     = Some (JString ''X'') \<and>
   invocations (trace (handleNatsMsg parseSamples
       (''MSG advancedCoinGraduated 2 28'' @ CRLF @ payloadOnlyEmpty) listenerWithCallback)) = [] \<and>
   diagnostics (trace (handleNatsMsg parseSamples
       (''MSG advancedCoinGraduated 2 28'' @ CRLF @ payloadOnlyEmpty) listenerWithCallback))
     = [(Warn, MissingTokenAddress)]"
proof -
  let ?kvs = "[(''coinMint'', JString ''''), (''mint'', JString ''X'')]"
  let ?kvs2 = "[(''coinMint'', JString ''''), (''address'', JString '''')]"
  let ?m = "''MSG advancedCoinGraduated 2 28'' @ CRLF @ payloadOnlyEmpty"
  have ft: "firstTruthy ?kvs aliases = Some (JString ''X'')"
    by (simp add: aliases_def)
  have k: "\<forall>n \<in> set aliases. map_of ?kvs2 n = None \<or> map_of ?kvs2 n = Some (JString '''')"
    by (simp add: aliases_def)
  have r: "reachesDecode ?m payloadOnlyEmpty"
    by (simp add: reachesDecode_def SID_ADVANCED_COIN_GRADUATED_def string_eval sample_eval)
  have d: "fst (decodePayload parseSamples payloadOnlyEmpty listenerWithCallback)
      = Inr (JObject ?kvs2)"
    by (simp add: decodePayload_result sample_eval)
  have t0: "trace listenerWithCallback = []"
    by (simp add: listenerWithCallback_def addTokenCallback_def newListener_def)
  have "tokenAddressOf (JObject ?kvs) = Inr (firstTruthy ?kvs aliases)"
    using tokenAddress_falsy_alias_skipped [of ?kvs] ft by simp
  moreover have "invocations (trace (handleNatsMsg parseSamples ?m listenerWithCallback))
        = invocations (trace listenerWithCallback) \<and>
      diagnostics (trace (handleNatsMsg parseSamples ?m listenerWithCallback))
        = diagnostics (trace listenerWithCallback) @
          [(Warn, MissingTokenAddress)]"
    using tokenAddress_falsy_alias_skipped [of ?kvs2 ?m payloadOnlyEmpty parseSamples listenerWithCallback]
      k r d by blast
  ultimately show ?thesis
    unfolding t0 using ft by simp
qed

subsection \<open>Malformed frames\<close>

text \<open>
  Claim C9 at a frame whose header line has three fields, \<open>MSG\<close>, the subject and the
  subscription id, and no byte count. \<open>handleNatsMsg\<close> counts the fields of the whole
  message, payload included: the payload makes a fourth field, the frame passes the
  check of line 172, and the callback is called with the token address; no diagnostic
  is logged.
\<close>

theorem short_header_frame_dispatched:
  "split_ws ''MSG advancedCoinGraduated 2'' = [''MSG'', ''advancedCoinGraduated'', ''2''] \<and>
   invocations (trace (onMessage parseSamples
       (frameOf ''MSG advancedCoinGraduated 2'' payloadMint) listenerWithCallback))
     = [(0, JString ''X'', JObject [(''mint'', JString ''X'')])] \<and>
   diagnostics (trace (onMessage parseSamples
       (frameOf ''MSG advancedCoinGraduated 2'' payloadMint) listenerWithCallback)) = []"
  by (simp add: string_eval sample_eval listener_eval)

text \<open>The rest of claim C9 holds. A message of fewer than four fields, or with no
  \<open>\r\n\<close>, is dropped with a warning (lemmas \<open>handleNatsMsg_malformed\<close> and
  \<open>handleNatsMsg_no_separator\<close>); a payload that fails to decode at either pass is
  dropped with an error logged and no callback called (lemma
  \<open>handleNatsMsg_decode_failure\<close>); and a data frame never changes the session state.\<close>

lemma startsWith_both:
  assumes "startsWith s p" and "startsWith s q" and "length p \<le> length q"
  shows "take (length p) q = p"
proof -
  have "take (length p) q = take (length p) (take (length q) s)"
    using assms(2) by (simp add: startsWith_def)
  also have "\<dots> = take (length p) s"
    using assms(3) by (simp add: min_def)
  also have "\<dots> = p"
    using assms(1) by (simp add: startsWith_def)
  finally show ?thesis .
qed

lemma onMessage_MSG_natsState:
  assumes m: "startsWith (trim data) ''MSG''"
  shows "natsState (onMessage parse data s) = natsState s"
proof -
  have "\<not> startsWith (trim data) ''INFO''"
    using startsWith_both [OF m, of "''INFO''"] by auto
  moreover have "trim data \<noteq> ''PING''"
    using m by (auto simp: startsWith_def)
  ultimately show ?thesis
    using m by (simp add: onMessage_def Let_def handleNatsMsg_natsState)
qed

lemma decode_failure_example:
  "invocations (trace (onMessage parseSamples
       (frameOf ''MSG advancedCoinGraduated 2 5'' payloadNotJson) listenerWithCallback)) = [] \<and>
   diagnostics (trace (onMessage parseSamples
       (frameOf ''MSG advancedCoinGraduated 2 5'' payloadNotJson) listenerWithCallback))
     = [(Error, ErrorParsingPayload)]"
  by (simp add: string_eval sample_eval listener_eval)

subsection \<open>The session state machine\<close>

lemma natsState_updateSocket [simp]: "natsState (updateSocket i f s) = natsState s"
  by (simp add: updateSocket_def)

lemma natsState_setReadyState [simp]: "natsState (setReadyState i r s) = natsState s"
  by (simp add: setReadyState_def)

lemma natsState_sendNatsCommand [simp]: "natsState (sendNatsCommand c s) = natsState s"
  by (simp add: sendNatsCommand_def split: option.split)

lemma natsState_stopClientKeepAlive [simp]: "natsState (stopClientKeepAlive s) = natsState s"
  by (simp add: stopClientKeepAlive_def)

lemma natsState_clientKeepAliveTick [simp]: "natsState (clientKeepAliveTick s) = natsState s"
  by (simp add: clientKeepAliveTick_def split: option.split)

lemma natsState_stop [simp]: "natsState (stop s) = DISCONNECTED"
  by (simp add: stop_def Let_def split: option.split)

lemma natsState_onError [simp]: "natsState (onError s) = DISCONNECTED"
  by (simp add: onError_def)

lemma natsState_onClose [simp]: "natsState (onClose s) = DISCONNECTED"
  by (simp add: onClose_def Let_def)


lemma timers_logger [simp]:
  "clientKeepAliveIntervalId (logger lvl msg s) = clientKeepAliveIntervalId s"
  "reconnectTimers (logger lvl msg s) = reconnectTimers s"
  by (simp_all add: logger_def emit_def)

lemma timers_setReadyState [simp]:
  "clientKeepAliveIntervalId (setReadyState i r s) = clientKeepAliveIntervalId s"
  "reconnectTimers (setReadyState i r s) = reconnectTimers s"
  by (simp_all add: setReadyState_def updateSocket_def)





lemmas machine_eval =
  run_def step_def start_def stop_def connect_def onOpen_def onClose_def onError_def
  onMessage_def subscribeToTopics_def sendNatsCommand_def startClientKeepAlive_def
  stopClientKeepAlive_def clientKeepAliveTick_def thisWs_def updateSocket_def
  setReadyState_def wsClose_def newWebSocket_def newListener_def streamConfig_def
  logger_def emit_def js_index_def reconnectInterval_def clientKeepAliveIntervalMs_def
  startsWith_def trim_def isWhiteSpace_def Let_def




subsection \<open>\<open>stop\<close>\<close>

text \<open>A second \<open>stop\<close> changes nothing but the log: no socket is touched, so none is
  closed again, and the timers are what the first \<open>stop\<close> left.\<close>

lemma stop_idempotent:
  "stop (stop s) =
     (stop s)\<lparr>trace := trace (stop s) @
        [Log Info Stopping,
         Log Info Stopped]\<rparr>"
  by (simp add: stop_def Let_def stopClientKeepAlive_def logger_def emit_def updateSocket_def
        split: option.split)

lemma stop_leaves_reconnectTimers: "reconnectTimers (stop s) = reconnectTimers s"
  by (simp add: stop_def Let_def stopClientKeepAlive_def logger_def emit_def updateSocket_def
        split: option.split)

text \<open>
  Claim C3 at the events: \<open>start\<close>, the socket opens, the socket closes (the
  \<open>'close'\<close> handler starts a reconnect timer), \<open>stop\<close>, the timer fires. \<open>stop\<close>
  leaves the session \<open>DISCONNECTED\<close> with \<open>this.ws\<close> null, but the timer is still
  pending; when it fires, \<open>connect\<close> runs: the session is \<open>CONNECTING\<close> again, on a
  second socket.
\<close>

theorem reconnect_timer_fires_after_stop:
  "natsState stoppedListener = DISCONNECTED \<and>
   ws stoppedListener = None \<and>
   reconnectTimers stoppedListener = [reconnectInterval] \<and>
   natsState (step streamConfig parseSamples stoppedListener ReconnectTimerFires) = CONNECTING \<and>
   ws (step streamConfig parseSamples stoppedListener ReconnectTimerFires) = Some 1 \<and>
   length (sockets (step streamConfig parseSamples stoppedListener ReconnectTimerFires)) = 2"
  by (simp add: stoppedListener_def machine_eval)

end
